theory Spec2Isabelle
  imports Main "HOL-Library.Word"
begin

section \<open>The swap contract's interface\<close>

text \<open>
  The repository holds the interface description of the swap contract (a JSON list,
  called \<open>swapAbi\<close> here as in the client) and the client module
  \<open>blockchain-context.js\<close> that drives the contract through it. The interface
  description is data: a list of entries, each of them an error, an event or a
  function with its named, typed parameters. It is embedded entry by entry, every
  field of the JSON kept.
\<close>

type_synonym byte = "8 word"
type_synonym address = "160 word"
type_synonym bytes32 = "256 word"
type_synonym uint256 = "256 word"

text \<open>
  One parameter of an entry: the \<open>indexed\<close> flag (events only, absent otherwise),
  \<open>internalType\<close>, \<open>name\<close> and \<open>type\<close>.
\<close>

datatype abi_param =
  Param (p_indexed: "bool option") (p_internalType: string) (p_name: string) (p_type: string)

text \<open>
  One entry; the constructor is the JSON field \<open>type\<close>, the arguments are the
  remaining fields in the order of the file.
\<close>

datatype abi_entry =
    AbiError (e_inputs: "abi_param list") (e_name: string)
  | AbiEvent (e_anonymous: bool) (e_inputs: "abi_param list") (e_name: string)
  | AbiFunction (e_inputs: "abi_param list") (e_name: string)
      (e_outputs: "abi_param list") (e_stateMutability: string)

definition swapAbi :: "abi_entry list" where
  "swapAbi =
   [AbiError
      [Param None ''bytes32'' ''lockId'' ''bytes32'']
      ''LockAlreadyExists'',
    AbiError
      [Param None ''bytes32'' ''lockId'' ''bytes32'']
      ''LockNotFound'',
    AbiError
      [Param None ''bytes32'' ''lockId'' ''bytes32'']
      ''LockNotTimedOut'',
    AbiError
      [Param None ''bytes32'' ''lockId'' ''bytes32'']
      ''LockTimedOut'',
    AbiError
      [Param None ''contract ERC20'' ''token'' ''address'',
       Param None ''address'' ''from'' ''address'',
       Param None ''uint256'' ''value'' ''uint256'']
      ''TransferInFailed'',
    AbiError
      [Param None ''contract ERC20'' ''token'' ''address'',
       Param None ''address'' ''to'' ''address'',
       Param None ''uint256'' ''value'' ''uint256'']
      ''TransferOutFailed'',
    AbiEvent False
      [Param (Some True) ''contract ERC20'' ''token'' ''address'',
       Param (Some True) ''address'' ''creator'' ''address'',
       Param (Some True) ''address'' ''recipient'' ''address'',
       Param (Some False) ''bytes32'' ''lockId'' ''bytes32'']
      ''Decline'',
    AbiEvent False
      [Param (Some True) ''contract ERC20'' ''token'' ''address'',
       Param (Some True) ''address'' ''creator'' ''address'',
       Param (Some True) ''address'' ''recipient'' ''address'',
       Param (Some False) ''bytes32'' ''hashedSecret'' ''bytes32'',
       Param (Some False) ''uint256'' ''timeout'' ''uint256'',
       Param (Some False) ''uint256'' ''value'' ''uint256'',
       Param (Some False) ''bytes32'' ''sellAssetId'' ''bytes32'',
       Param (Some False) ''uint256'' ''sellPrice'' ''uint256'',
       Param (Some False) ''bytes32'' ''lockId'' ''bytes32'']
      ''LockBuy'',
    AbiEvent False
      [Param (Some True) ''contract ERC20'' ''token'' ''address'',
       Param (Some True) ''address'' ''creator'' ''address'',
       Param (Some True) ''address'' ''recipient'' ''address'',
       Param (Some False) ''bytes32'' ''hashedSecret'' ''bytes32'',
       Param (Some False) ''uint256'' ''timeout'' ''uint256'',
       Param (Some False) ''uint256'' ''value'' ''uint256'',
       Param (Some False) ''bytes32'' ''buyAssetId'' ''bytes32'',
       Param (Some False) ''bytes32'' ''buyLockId'' ''bytes32'']
      ''LockSell'',
    AbiEvent False
      [Param (Some True) ''contract ERC20'' ''token'' ''address'',
       Param (Some True) ''address'' ''creator'' ''address'',
       Param (Some True) ''address'' ''recipient'' ''address'',
       Param (Some False) ''bytes32'' ''lockId'' ''bytes32'']
      ''Retrieve'',
    AbiEvent False
      [Param (Some True) ''contract ERC20'' ''token'' ''address'',
       Param (Some True) ''address'' ''creator'' ''address'',
       Param (Some True) ''address'' ''recipient'' ''address'',
       Param (Some False) ''bytes32'' ''lockId'' ''bytes32'',
       Param (Some False) ''bytes32'' ''secret'' ''bytes32'']
      ''Unlock'',
    AbiFunction
      [Param None ''contract ERC20'' ''token'' ''address'',
       Param None ''address'' ''creator'' ''address'',
       Param None ''bytes32'' ''hashedSecret'' ''bytes32'',
       Param None ''uint256'' ''timeout'' ''uint256'']
      ''decline''
      []
      ''nonpayable'',
    AbiFunction
      [Param None ''bytes32'' ''lockId'' ''bytes32'']
      ''getLockValue''
      [Param None ''uint256'' ''value'' ''uint256'']
      ''view'',
    AbiFunction
      [Param None ''contract ERC20'' ''token'' ''address'',
       Param None ''address'' ''recipient'' ''address'',
       Param None ''bytes32'' ''hashedSecret'' ''bytes32'',
       Param None ''uint256'' ''timeout'' ''uint256'',
       Param None ''uint256'' ''value'' ''uint256'',
       Param None ''bytes32'' ''sellAssetId'' ''bytes32'',
       Param None ''uint256'' ''sellPrice'' ''uint256'']
      ''lockBuy''
      []
      ''nonpayable'',
    AbiFunction
      [Param None ''contract ERC20'' ''token'' ''address'',
       Param None ''address'' ''recipient'' ''address'',
       Param None ''bytes32'' ''hashedSecret'' ''bytes32'',
       Param None ''uint256'' ''timeout'' ''uint256'',
       Param None ''uint256'' ''value'' ''uint256'',
       Param None ''bytes32'' ''buyAssetId'' ''bytes32'',
       Param None ''bytes32'' ''buyLockId'' ''bytes32'']
      ''lockSell''
      []
      ''nonpayable'',
    AbiFunction
      [Param None ''contract ERC20'' ''token'' ''address'',
       Param None ''address'' ''recipient'' ''address'',
       Param None ''bytes32'' ''hashedSecret'' ''bytes32'',
       Param None ''uint256'' ''timeout'' ''uint256'']
      ''retrieve''
      []
      ''nonpayable'',
    AbiFunction
      [Param None ''contract ERC20'' ''token'' ''address'',
       Param None ''address'' ''creator'' ''address'',
       Param None ''bytes32'' ''secret'' ''bytes32'',
       Param None ''uint256'' ''timeout'' ''uint256'']
      ''unlock''
      []
      ''nonpayable'']"

fun is_error :: "abi_entry \<Rightarrow> bool" where
  "is_error (AbiError _ _) = True"
| "is_error _ = False"

fun is_event :: "abi_entry \<Rightarrow> bool" where
  "is_event (AbiEvent _ _ _) = True"
| "is_event _ = False"

fun is_function :: "abi_entry \<Rightarrow> bool" where
  "is_function (AbiFunction _ _ _ _) = True"
| "is_function _ = False"

definition abi_errors :: "abi_entry list" where
  "abi_errors = filter is_error swapAbi"

definition abi_events :: "abi_entry list" where
  "abi_events = filter is_event swapAbi"

text \<open>The parameters of an entry as pairs of name and type, in declaration order.\<close>

definition signature :: "abi_entry \<Rightarrow> (string \<times> string) list" where
  "signature e = map (\<lambda>p. (p_name p, p_type p)) (e_inputs e)"

definition field_names :: "abi_entry \<Rightarrow> string list" where
  "field_names e = map p_name (e_inputs e)"

text \<open>Looking an entry up by kind and name, as the client's contract object does.\<close>

definition find_entry :: "(abi_entry \<Rightarrow> bool) \<Rightarrow> string \<Rightarrow> abi_entry option" where
  "find_entry kind n = find (\<lambda>e. kind e \<and> e_name e = n) swapAbi"

section \<open>Lock identity\<close>

text \<open>
  The client computes a lock's identity with
  \<^verbatim>\<open>ethers.solidityPackedKeccak256(["address", "address", "bytes32", "uint256"],
     [tokenAddress, creator, hashedSecret, timeout])\<close>.
  The tightly packed encoding writes an address as its 20 bytes, a \<open>bytes32\<close> as its
  32 bytes and a \<open>uint256\<close> as 32 bytes, most significant byte first, one after the
  other with no padding and no length prefix. The values are typed here; a value that
  is not of its declared type makes the library throw before anything is hashed.
\<close>

definition be_bytes :: "nat \<Rightarrow> 'a::len word \<Rightarrow> byte list" where
  "be_bytes n w = map (\<lambda>i. ucast (drop_bit (8 * i) w)) (rev [0..<n])"

datatype packed_value = Address address | Bytes32 bytes32 | Uint256 uint256

fun pack :: "packed_value \<Rightarrow> byte list" where
  "pack (Address a) = be_bytes 20 a"
| "pack (Bytes32 b) = be_bytes 32 b"
| "pack (Uint256 n) = be_bytes 32 n"

definition solidityPacked :: "packed_value list \<Rightarrow> byte list" where
  "solidityPacked vs = concat (map pack vs)"

text \<open>
  The hash function itself belongs to the library; it is the parameter \<open>keccak256\<close>
  of everything that hashes.
\<close>

definition solidityPackedKeccak256 :: "(byte list \<Rightarrow> bytes32) \<Rightarrow> packed_value list \<Rightarrow> bytes32" where
  "solidityPackedKeccak256 keccak256 vs = keccak256 (solidityPacked vs)"

definition calculateLockId ::
  "(byte list \<Rightarrow> bytes32) \<Rightarrow> address \<Rightarrow> address \<Rightarrow> bytes32 \<Rightarrow> uint256 \<Rightarrow> bytes32" where
  "calculateLockId keccak256 tokenAddress creator hashedSecret timeout =
     solidityPackedKeccak256 keccak256
       [Address tokenAddress, Address creator, Bytes32 hashedSecret, Uint256 timeout]"

section \<open>The lock ledger\<close>

text \<open>
  The contract behind the interface is not among the repository's sources: only its
  interface description and its caller are. The ledger below is therefore written from
  the specification's description of the contract, operation by operation, and every
  definition built that way says so. An operation gives back the new table and the
  custody transfer it has carried out; the records the contract emits are the events of
  the interface description and are treated with it.
\<close>

text \<open>
  The six rejections are the six \<open>error\<close> entries of the interface description, each
  with the parameters declared there.
\<close>

datatype swap_error =
    LockAlreadyExists bytes32
  | LockNotFound bytes32
  | LockNotTimedOut bytes32
  | LockTimedOut bytes32
  | TransferInFailed address address uint256
  | TransferOutFailed address address uint256

text \<open>
  Modelled from the spec: the lock record of the contract, which is missing from the
  sources. The persisted layout is one keyed table from \<open>lockId\<close> to
  \<open>{assetContract, creator, recipient, hashedSecret, timeout, value}\<close>; a key is
  present exactly while its lock is open.
\<close>

record lock =
  l_assetContract :: address
  l_creator :: address
  l_recipient :: address
  l_hashedSecret :: bytes32
  l_timeout :: uint256
  l_value :: uint256

type_synonym ledger = "bytes32 \<rightharpoonup> lock"

text \<open>
  Modelled from the spec: what the contract, missing from the sources, is configured
  with. The commitment of a secret and the derivation of an identity are two hash
  functions (the specification leaves open whether they are the same one). The
  specification names no rejection for a caller who is not the stored recipient, so
  the rejection raised then is left open as \<open>denied\<close>.
\<close>

record engine =
  hash_secret :: "bytes32 \<Rightarrow> bytes32"
  hash_id :: "byte list \<Rightarrow> bytes32"
  denied :: "bytes32 \<Rightarrow> swap_error"

text \<open>
  Modelled from the spec: what one invocation of the contract, missing from the
  sources, sees of its surroundings. These are the calling party, the current ledger
  time, and the two primitives of the asset contracts, each of which reports success
  or failure: \<open>pull asset from value\<close> moves \<open>value\<close> units from an account into
  custody, \<open>push asset to value\<close> moves them from custody to an account.
\<close>

record invocation =
  caller :: address
  current_time :: uint256
  pull :: "address \<Rightarrow> address \<Rightarrow> uint256 \<Rightarrow> bool"
  push :: "address \<Rightarrow> address \<Rightarrow> uint256 \<Rightarrow> bool"

text \<open>The custody transfer that a completed operation has carried out.\<close>

datatype transfer =
    Pulled address address uint256
  | Pushed address address uint256

text \<open>
  Modelled from the spec: identity derivation of the contract, missing from the sources:
  \<open>lockId = H(assetContract \<parallel> creator \<parallel> hashedSecret \<parallel> timeout)\<close>, the same
  packed encoding the client hashes.
\<close>

definition lockIdOf :: "engine \<Rightarrow> address \<Rightarrow> address \<Rightarrow> bytes32 \<Rightarrow> uint256 \<Rightarrow> bytes32" where
  "lockIdOf g assetContract creator hashedSecret timeout =
     calculateLockId (hash_id g) assetContract creator hashedSecret timeout"

text \<open>
  Modelled from the spec: the two creation operations of the contract, missing from the
  sources. The identity is derived with the caller as creator; an identity that
  denotes an open lock is rejected with \<open>LockAlreadyExists\<close>; then \<open>value\<close> units
  are pulled from the caller (\<open>TransferInFailed\<close> if the pull fails) and the new lock
  is stored with \<open>creator = caller\<close>. The counter-asset metadata is carried only in
  the emitted record and takes no part in the checks.
\<close>

definition create ::
  "engine \<Rightarrow> invocation \<Rightarrow> ledger \<Rightarrow> address \<Rightarrow> address \<Rightarrow> bytes32 \<Rightarrow> uint256 \<Rightarrow> uint256
     \<Rightarrow> swap_error + ledger \<times> transfer" where
  "create g env locks assetContract recipient hashedSecret timeout amount =
     (let lockId = lockIdOf g assetContract (caller env) hashedSecret timeout in
      if locks lockId \<noteq> None then Inl (LockAlreadyExists lockId)
      else if \<not> pull env assetContract (caller env) amount
        then Inl (TransferInFailed assetContract (caller env) amount)
      else Inr (locks(lockId \<mapsto>
                  \<lparr>l_assetContract = assetContract, l_creator = caller env,
                   l_recipient = recipient, l_hashedSecret = hashedSecret,
                   l_timeout = timeout, l_value = amount\<rparr>),
                Pulled assetContract (caller env) amount))"

definition lockBuy ::
  "engine \<Rightarrow> invocation \<Rightarrow> ledger \<Rightarrow> address \<Rightarrow> address \<Rightarrow> bytes32 \<Rightarrow> uint256 \<Rightarrow> uint256
     \<Rightarrow> bytes32 \<Rightarrow> uint256 \<Rightarrow> swap_error + ledger \<times> transfer" where
  "lockBuy g env locks assetContract recipient hashedSecret timeout amount
       wantedAssetId wantedPrice =
     create g env locks assetContract recipient hashedSecret timeout amount"

definition lockSell ::
  "engine \<Rightarrow> invocation \<Rightarrow> ledger \<Rightarrow> address \<Rightarrow> address \<Rightarrow> bytes32 \<Rightarrow> uint256 \<Rightarrow> uint256
     \<Rightarrow> bytes32 \<Rightarrow> bytes32 \<Rightarrow> swap_error + ledger \<times> transfer" where
  "lockSell g env locks assetContract recipient hashedSecret timeout amount
       wantedAssetId matchingLockId =
     create g env locks assetContract recipient hashedSecret timeout amount"

text \<open>
  Modelled from the spec: \<open>Unlock(assetContract, creator, secret, timeout)\<close> of the
  contract, missing from the sources. It recomputes \<open>hashedSecret = H(secret)\<close> and
  derives the identity; the lock must be open (\<open>LockNotFound\<close>), the current time
  strictly before \<open>timeout\<close> (\<open>LockTimedOut\<close>), the caller the stored recipient;
  it pays \<open>value\<close> units to the caller (\<open>TransferOutFailed\<close> if the payment fails)
  and closes the lock.
\<close>

definition unlock ::
  "engine \<Rightarrow> invocation \<Rightarrow> ledger \<Rightarrow> address \<Rightarrow> address \<Rightarrow> bytes32 \<Rightarrow> uint256
     \<Rightarrow> swap_error + ledger \<times> transfer" where
  "unlock g env locks assetContract creator secret timeout =
     (let hashedSecret = hash_secret g secret;
          lockId = lockIdOf g assetContract creator hashedSecret timeout in
      case locks lockId of
        None \<Rightarrow> Inl (LockNotFound lockId)
      | Some l \<Rightarrow>
          if \<not> current_time env < timeout then Inl (LockTimedOut lockId)
          else if caller env \<noteq> l_recipient l then Inl (denied g lockId)
          else if \<not> push env assetContract (caller env) (l_value l)
            then Inl (TransferOutFailed assetContract (caller env) (l_value l))
          else Inr (locks(lockId := None), Pushed assetContract (caller env) (l_value l)))"

text \<open>
  Modelled from the spec: \<open>Retrieve(assetContract, recipient, hashedSecret, timeout)\<close>
  of the contract, missing from the sources. The identity is derived with the caller as
  creator; the lock must be open (\<open>LockNotFound\<close>) and the current time at or after
  \<open>timeout\<close> (\<open>LockNotTimedOut\<close>); \<open>value\<close> units go back to the caller and the
  lock is closed. The \<open>recipient\<close> argument takes no part in the derivation.
\<close>

definition retrieve ::
  "engine \<Rightarrow> invocation \<Rightarrow> ledger \<Rightarrow> address \<Rightarrow> address \<Rightarrow> bytes32 \<Rightarrow> uint256
     \<Rightarrow> swap_error + ledger \<times> transfer" where
  "retrieve g env locks assetContract recipient hashedSecret timeout =
     (let lockId = lockIdOf g assetContract (caller env) hashedSecret timeout in
      case locks lockId of
        None \<Rightarrow> Inl (LockNotFound lockId)
      | Some l \<Rightarrow>
          if current_time env < timeout then Inl (LockNotTimedOut lockId)
          else if \<not> push env assetContract (caller env) (l_value l)
            then Inl (TransferOutFailed assetContract (caller env) (l_value l))
          else Inr (locks(lockId := None), Pushed assetContract (caller env) (l_value l)))"

text \<open>
  Modelled from the spec: \<open>Decline(assetContract, creator, hashedSecret, timeout)\<close> of
  the contract, missing from the sources. The identity is derived from the explicit
  \<open>creator\<close>; the lock must be open (\<open>LockNotFound\<close>), the current time strictly
  before \<open>timeout\<close> (\<open>LockTimedOut\<close>), the caller the stored recipient;
  \<open>value\<close> units go back to \<open>creator\<close> and the lock is closed.
\<close>

definition decline ::
  "engine \<Rightarrow> invocation \<Rightarrow> ledger \<Rightarrow> address \<Rightarrow> address \<Rightarrow> bytes32 \<Rightarrow> uint256
     \<Rightarrow> swap_error + ledger \<times> transfer" where
  "decline g env locks assetContract creator hashedSecret timeout =
     (let lockId = lockIdOf g assetContract creator hashedSecret timeout in
      case locks lockId of
        None \<Rightarrow> Inl (LockNotFound lockId)
      | Some l \<Rightarrow>
          if \<not> current_time env < timeout then Inl (LockTimedOut lockId)
          else if caller env \<noteq> l_recipient l then Inl (denied g lockId)
          else if \<not> push env assetContract creator (l_value l)
            then Inl (TransferOutFailed assetContract creator (l_value l))
          else Inr (locks(lockId := None), Pushed assetContract creator (l_value l)))"

text \<open>
  Modelled from the spec: \<open>GetLockValue(lockId)\<close> of the contract, missing from the
  sources: the custodied value of an open lock, a not-found condition otherwise. The
  interface description declares the function \<open>view\<close>; its result holds no table, so
  the table a call reads is the table after the call.
\<close>

definition getLockValue :: "ledger \<Rightarrow> bytes32 \<Rightarrow> swap_error + uint256" where
  "getLockValue locks lockId =
     (case locks lockId of
        None \<Rightarrow> Inl (LockNotFound lockId)
      | Some l \<Rightarrow> Inr (l_value l))"

text \<open>
  Modelled from the spec: how the contract, missing from the sources, is invoked. A
  request is one of the five operations; an invocation either completes all its
  effects or is rejected as a whole, and a rejected invocation leaves the table as it
  was before the call.
\<close>

datatype request =
    LockBuy address address bytes32 uint256 uint256 bytes32 uint256
  | LockSell address address bytes32 uint256 uint256 bytes32 bytes32
  | Unlock address address bytes32 uint256
  | Retrieve address address bytes32 uint256
  | Decline address address bytes32 uint256

fun perform :: "engine \<Rightarrow> invocation \<Rightarrow> ledger \<Rightarrow> request \<Rightarrow> swap_error + ledger \<times> transfer" where
  "perform g env locks (LockBuy a r h t v w p) = lockBuy g env locks a r h t v w p"
| "perform g env locks (LockSell a r h t v w m) = lockSell g env locks a r h t v w m"
| "perform g env locks (Unlock a c s t) = unlock g env locks a c s t"
| "perform g env locks (Retrieve a r h t) = retrieve g env locks a r h t"
| "perform g env locks (Decline a c h t) = decline g env locks a c h t"

definition invoke :: "engine \<Rightarrow> invocation \<Rightarrow> ledger \<Rightarrow> request \<Rightarrow> (swap_error + transfer) \<times> ledger" where
  "invoke g env locks req =
     (case perform g env locks req of
        Inl err \<Rightarrow> (Inl err, locks)
      | Inr (locks', tr) \<Rightarrow> (Inr tr, locks'))"

text \<open>A lock is stored under its own identity: the identity derived from its fields.\<close>

definition own_id :: "engine \<Rightarrow> lock \<Rightarrow> bytes32" where
  "own_id g l = lockIdOf g (l_assetContract l) (l_creator l) (l_hashedSecret l) (l_timeout l)"

definition open_lock :: "engine \<Rightarrow> ledger \<Rightarrow> lock \<Rightarrow> bool" where
  "open_lock g locks l = (locks (own_id g l) = Some l)"

section \<open>The client\<close>

text \<open>
  The client module wraps each contract function. Its arguments are JavaScript values:
  strings for addresses and hashes, and values of the type \<open>'n\<close> wherever the code
  computes with numbers. The three numeric steps the wrappers take are parameters,
  because they are steps of the language and not of this code: \<open>value*1000000\<close>,
  \<open>BigInt(String(value).trim())\<close> (which throws on a text that is not an integer
  literal: \<open>None\<close>) and \<open>Math.floor(Number(timeout))\<close>.
\<close>

record 'n js_ops =
  times1000000 :: "'n \<Rightarrow> 'n"
  toBigInt :: "'n \<Rightarrow> int option"
  floorNumber :: "'n \<Rightarrow> 'n"

text \<open>
  The same steps on integers of small magnitude, where JavaScript's product is exact
  and the decimal text of the product reads back as the same integer.
\<close>

definition integer_ops :: "int js_ops" where
  "integer_ops = \<lparr>times1000000 = (\<lambda>n. n * 1000000), toBigInt = Some, floorNumber = (\<lambda>n. n)\<rparr>"

datatype 'n js_value = Str string | Num 'n | BigInt int

text \<open>A call the client sends: to the token contract at an address, or to the swap contract.\<close>

datatype 'n sent = TokenCall string string "'n js_value list" | SwapCall string "'n js_value list"

text \<open>
  What a wrapper throws: the \<open>SyntaxError\<close> of \<open>BigInt\<close>, or the \<open>Error\<close> that
  \<open>lockBuy\<close> raises in its place, whose message quotes the value it could not read.
\<close>

datatype 'n thrown = SyntaxError | InvalidValueFormat 'n

text \<open>Lines 857 to 873 of the module: the amount \<open>lockBuy\<close> submits.\<close>

definition lockBuy_valueWei :: "'n js_ops \<Rightarrow> bool \<Rightarrow> 'n \<Rightarrow> 'n thrown + int" where
  "lockBuy_valueWei ops useRawValue v =
     (if useRawValue then
        (case toBigInt ops v of
           None \<Rightarrow> Inl (InvalidValueFormat v)
         | Some valueWei \<Rightarrow> Inr valueWei)
      else
        (let v' = times1000000 ops v in
         case toBigInt ops v' of
           None \<Rightarrow> Inl (InvalidValueFormat v')
         | Some valueWei \<Rightarrow> Inr valueWei))"

text \<open>Lines 1085 to 1097 of the module: the amount \<open>lockSell\<close> submits.\<close>

definition lockSell_valueWei :: "'n js_ops \<Rightarrow> bool \<Rightarrow> 'n \<Rightarrow> 'n thrown + int" where
  "lockSell_valueWei ops useRawValue v =
     (if useRawValue then
        (let v' = times1000000 ops v in
         case toBigInt ops v' of
           None \<Rightarrow> Inl SyntaxError
         | Some valueWei \<Rightarrow> Inr valueWei)
      else
        (let v' = times1000000 ops v in
         case toBigInt ops v' of
           None \<Rightarrow> Inl SyntaxError
         | Some valueWei \<Rightarrow> Inr valueWei))"

definition ZeroHash :: string where
  "ZeroHash = ''0x'' @ replicate 64 (CHR ''0'')"

definition startsWith :: "string \<Rightarrow> string \<Rightarrow> bool" where
  "startsWith s p = (take (length p) s = p)"

text \<open>
  \<^verbatim>\<open>x && x.startsWith('0x') ? x : ethers.ZeroHash\<close>, with \<open>None\<close> for an
  absent argument; the empty string is falsy.
\<close>

definition orZeroHash :: "string option \<Rightarrow> string" where
  "orZeroHash x =
     (case x of
        None \<Rightarrow> ZeroHash
      | Some s \<Rightarrow> if s \<noteq> [] \<and> startsWith s ''0x'' then s else ZeroHash)"

text \<open>
  Lines 1085 to 1153 of the module, for a connected wallet: the calls \<open>lockSell\<close>
  sends, given the allowance the token reports. An approval is requested only when the
  allowance is below the amount.
\<close>

definition lockSell_sends ::
  "'n js_ops \<Rightarrow> string \<Rightarrow> string \<Rightarrow> string \<Rightarrow> string \<Rightarrow> 'n \<Rightarrow> 'n \<Rightarrow> string option \<Rightarrow> string option
     \<Rightarrow> bool \<Rightarrow> int \<Rightarrow> 'n thrown + 'n sent list" where
  "lockSell_sends ops swapAddress tokenAddress recipient hashedSecret timeout v buyAssetId
       buyLockId useRawValue currentAllowance =
     (case lockSell_valueWei ops useRawValue v of
        Inl err \<Rightarrow> Inl err
      | Inr valueWei \<Rightarrow>
          (let formattedBuyAssetId = orZeroHash buyAssetId;
               formattedBuyLockId = orZeroHash buyLockId;
               timeoutInt = floorNumber ops timeout;
               approval = (if currentAllowance < valueWei
                           then [TokenCall tokenAddress ''approve'' [Str swapAddress, BigInt valueWei]]
                           else [])
           in Inr (approval @
                   [SwapCall ''lockSell''
                      [Str tokenAddress, Str recipient, Str hashedSecret, Num timeoutInt,
                       BigInt valueWei, Str formattedBuyAssetId, Str formattedBuyLockId]])))"

text \<open>Line 1223 of the module: the call \<open>unlock\<close> sends.\<close>

definition unlock_sends :: "'n js_ops \<Rightarrow> string \<Rightarrow> string \<Rightarrow> string \<Rightarrow> 'n \<Rightarrow> 'n sent" where
  "unlock_sends ops tokenAddress creator secret timeout =
     (let timeoutInt = floorNumber ops timeout
      in SwapCall ''unlock'' [Str tokenAddress, Str creator, Str secret, Num timeoutInt])"

text \<open>
  A decoded log: the event's name and its arguments, named as the interface description
  names the event's parameters. Reading an argument the event does not have gives
  \<open>undefined\<close> (\<open>None\<close>).
\<close>

type_synonym parsed_log = "string \<times> (string \<times> packed_value) list"

definition parseLog :: "abi_entry \<Rightarrow> packed_value list \<Rightarrow> parsed_log" where
  "parseLog e vals = (e_name e, zip (field_names e) vals)"

text \<open>Whether a decoded argument is truthy: a non-empty hex string is, the amount zero is not.\<close>

fun truthy :: "packed_value \<Rightarrow> bool" where
  "truthy (Address _) = True"
| "truthy (Bytes32 _) = True"
| "truthy (Uint256 n) = (n \<noteq> 0)"

text \<open>
  Lines 1175 to 1177 of the module: the identity \<open>lockSell\<close> returns. It is the
  \<open>lockId\<close> argument of the \<open>LockSell\<close> event when there is an event with a truthy
  one, and \<open>calculateLockId(tokenAddress, account, hashedSecret, timeoutInt)\<close>
  otherwise. The recipient and the amount of the call are in scope and are not used.
\<close>

definition lockSell_lockId ::
  "(byte list \<Rightarrow> bytes32) \<Rightarrow> address \<Rightarrow> address \<Rightarrow> address \<Rightarrow> bytes32 \<Rightarrow> uint256 \<Rightarrow> int
     \<Rightarrow> parsed_log option \<Rightarrow> packed_value" where
  "lockSell_lockId keccak256 tokenAddress account recipient hashedSecret timeoutInt valueWei
       lockSellEvent =
     (case lockSellEvent of
        None \<Rightarrow> Bytes32 (calculateLockId keccak256 tokenAddress account hashedSecret timeoutInt)
      | Some ev \<Rightarrow>
          (case map_of (snd ev) ''lockId'' of
             None \<Rightarrow> Bytes32 (calculateLockId keccak256 tokenAddress account hashedSecret timeoutInt)
           | Some lockId \<Rightarrow>
               if truthy lockId then lockId
               else Bytes32 (calculateLockId keccak256 tokenAddress account hashedSecret timeoutInt)))"

text \<open>
  Lines 1364 to 1373 of the module. The contract object is absent until a wallet is
  connected; the awaited call either rejects or gives the value; \<open>formatEther\<close> is
  the library's rendering of an amount at 18 decimals. Whatever is thrown inside the
  \<open>try\<close> block is caught. The result is \<open>Inr\<close> of the returned string, or \<open>Inl\<close>
  of what the wrapper throws.
\<close>

definition try_catch :: "'e + 'a \<Rightarrow> ('e \<Rightarrow> 'e + 'a) \<Rightarrow> 'e + 'a" where
  "try_catch body handler = (case body of Inl err \<Rightarrow> handler err | Inr r \<Rightarrow> Inr r)"

definition client_getLockValue ::
  "(uint256 \<Rightarrow> string) \<Rightarrow> (bytes32 \<Rightarrow> 'e + uint256) option \<Rightarrow> bytes32 \<Rightarrow> 'e + string" where
  "client_getLockValue formatEther swapContract lockId =
     (case swapContract of
        None \<Rightarrow> Inr ''0''
      | Some contract \<Rightarrow>
          try_catch
            (case contract lockId of
               Inl err \<Rightarrow> Inl err
             | Inr v \<Rightarrow> Inr (formatEther v))
            (\<lambda>err. Inr ''0''))"

section \<open>Rejections and records as the interface declares them\<close>

fun type_name :: "packed_value \<Rightarrow> string" where
  "type_name (Address _) = ''address''"
| "type_name (Bytes32 _) = ''bytes32''"
| "type_name (Uint256 _) = ''uint256''"

text \<open>The name and the named arguments under which a rejection reaches the caller.\<close>

fun detail :: "swap_error \<Rightarrow> string \<times> (string \<times> packed_value) list" where
  "detail (LockAlreadyExists lockId) = (''LockAlreadyExists'', [(''lockId'', Bytes32 lockId)])"
| "detail (LockNotFound lockId) = (''LockNotFound'', [(''lockId'', Bytes32 lockId)])"
| "detail (LockNotTimedOut lockId) = (''LockNotTimedOut'', [(''lockId'', Bytes32 lockId)])"
| "detail (LockTimedOut lockId) = (''LockTimedOut'', [(''lockId'', Bytes32 lockId)])"
| "detail (TransferInFailed token from amount) =
     (''TransferInFailed'',
      [(''token'', Address token), (''from'', Address from), (''value'', Uint256 amount)])"
| "detail (TransferOutFailed token to amount) =
     (''TransferOutFailed'',
      [(''token'', Address token), (''to'', Address to), (''value'', Uint256 amount)])"

definition declared :: "swap_error \<Rightarrow> string \<times> (string \<times> string) list" where
  "declared err = (fst (detail err), map (\<lambda>(n, v). (n, type_name v)) (snd (detail err)))"

text \<open>Whether the event of a given name has a parameter of a given name.\<close>

definition has_field :: "string \<Rightarrow> string \<Rightarrow> bool" where
  "has_field ev f =
     (case find_entry is_event ev of None \<Rightarrow> False | Some e \<Rightarrow> f \<in> set (field_names e))"

section \<open>Example data\<close>

text \<open>
  A small configuration on which the statements below are instantiated. The two hash
  functions are stand-ins that can be computed by rewriting; \<open>denied\<close> is
  \<open>LockNotFound\<close>. The lock is one of 1000 units of asset 10, funded by party 12 for
  party 11, committed to the secret 42, with deadline 100.
\<close>

definition example_engine :: engine where
  "example_engine =
     \<lparr>hash_secret = (\<lambda>s. s + 1),
      hash_id = foldl (\<lambda>h b. 31 * h + ucast b) 7,
      denied = LockNotFound\<rparr>"

definition example_lock :: lock where
  "example_lock =
     \<lparr>l_assetContract = 10, l_creator = 12, l_recipient = 11,
      l_hashedSecret = 43, l_timeout = 100, l_value = 1000\<rparr>"

definition example_id :: bytes32 where
  "example_id = lockIdOf example_engine 10 12 43 100"

definition example_ledger :: ledger where
  "example_ledger = Map.empty(example_id \<mapsto> example_lock)"

text \<open>An invocation by a party at a time, with transfers that all succeed or all fail.\<close>

definition at :: "address \<Rightarrow> uint256 \<Rightarrow> bool \<Rightarrow> invocation" where
  "at party tm ok =
     \<lparr>caller = party, current_time = tm, pull = (\<lambda>_ _ _. ok), push = (\<lambda>_ _ _. ok)\<rparr>"

text \<open>
  A stand-in for the library's \<open>formatEther\<close> that agrees with it on the two amounts
  used below: 1000 units are \<open>0.000000000000001\<close> at 18 decimals.
\<close>

definition example_formatEther :: "uint256 \<Rightarrow> string" where
  "example_formatEther v = (if v = 1000 then ''0.000000000000001'' else ''0.0'')"

section \<open>Facts about the packed encoding\<close>

lemma length_be_bytes: "length (be_bytes n w) = n"
  by (simp add: be_bytes_def)

lemma be_bytes_nth:
  "i < n \<Longrightarrow> be_bytes n w ! (n - Suc i) = ucast (drop_bit (8 * i) w)"
  by (simp add: be_bytes_def rev_nth)

text \<open>Enough bytes determine the word: bit \<open>k\<close> is bit \<open>k mod 8\<close> of byte \<open>k div 8\<close>.\<close>

lemma be_bytes_inj:
  fixes w w' :: "'a::len word"
  assumes eq: "be_bytes n w = be_bytes n w'" and wide: "LENGTH('a) \<le> 8 * n"
  shows "w = w'"
proof (rule bit_word_eqI)
  fix k assume k: "k < LENGTH('a)"
  define j where "j = k div 8"
  have j: "j < n" using k wide by (auto simp: j_def less_mult_imp_div_less mult.commute)
  have "be_bytes n w ! (n - Suc j) = be_bytes n w' ! (n - Suc j)"
    using eq by simp
  then have "(ucast (drop_bit (8 * j) w) :: byte) = ucast (drop_bit (8 * j) w')"
    using j by (simp add: be_bytes_nth)
  then have "bit (ucast (drop_bit (8 * j) w) :: byte) (k mod 8)
           = bit (ucast (drop_bit (8 * j) w') :: byte) (k mod 8)"
    by simp
  then show "bit w k = bit w' k"
    by (simp add: bit_ucast_iff bit_drop_bit_eq j_def)
qed

lemma solidityPacked_tuple:
  "solidityPacked [Address a, Address c, Bytes32 h, Uint256 t]
     = be_bytes 20 a @ be_bytes 20 c @ be_bytes 32 h @ be_bytes 32 t"
  by (simp add: solidityPacked_def)

lemma solidityPacked_tuple_inj:
  "solidityPacked [Address a, Address c, Bytes32 h, Uint256 t]
     = solidityPacked [Address a', Address c', Bytes32 h', Uint256 t']
   \<longleftrightarrow> a = a' \<and> c = c' \<and> h = h' \<and> t = t'"
  by (auto simp: solidityPacked_tuple length_be_bytes dest: be_bytes_inj)

section \<open>Facts about the interface description\<close>

lemma abi_error_list:
  "map (\<lambda>e. (e_name e, signature e)) abi_errors =
     [(''LockAlreadyExists'', [(''lockId'', ''bytes32'')]),
      (''LockNotFound'', [(''lockId'', ''bytes32'')]),
      (''LockNotTimedOut'', [(''lockId'', ''bytes32'')]),
      (''LockTimedOut'', [(''lockId'', ''bytes32'')]),
      (''TransferInFailed'',
         [(''token'', ''address''), (''from'', ''address''), (''value'', ''uint256'')]),
      (''TransferOutFailed'',
         [(''token'', ''address''), (''to'', ''address''), (''value'', ''uint256'')])]"
  by (simp add: abi_errors_def swapAbi_def signature_def)

lemma declared_in_abi:
  "declared err \<in> set (map (\<lambda>e. (e_name e, signature e)) abi_errors)"
  unfolding abi_error_list by (cases err) (simp_all add: declared_def)

lemma find_LockSell:
  "find_entry is_event ''LockSell'' = Some (AbiEvent False
      [Param (Some True) ''contract ERC20'' ''token'' ''address'',
       Param (Some True) ''address'' ''creator'' ''address'',
       Param (Some True) ''address'' ''recipient'' ''address'',
       Param (Some False) ''bytes32'' ''hashedSecret'' ''bytes32'',
       Param (Some False) ''uint256'' ''timeout'' ''uint256'',
       Param (Some False) ''uint256'' ''value'' ''uint256'',
       Param (Some False) ''bytes32'' ''buyAssetId'' ''bytes32'',
       Param (Some False) ''bytes32'' ''buyLockId'' ''bytes32'']
      ''LockSell'')"
  by (simp add: find_entry_def swapAbi_def)

lemma find_unlock:
  "find_entry is_function ''unlock'' = Some (AbiFunction
      [Param None ''contract ERC20'' ''token'' ''address'',
       Param None ''address'' ''creator'' ''address'',
       Param None ''bytes32'' ''secret'' ''bytes32'',
       Param None ''uint256'' ''timeout'' ''uint256'']
      ''unlock''
      []
      ''nonpayable'')"
  by (simp add: find_entry_def swapAbi_def)

lemma find_getLockValue:
  "find_entry is_function ''getLockValue'' = Some (AbiFunction
      [Param None ''bytes32'' ''lockId'' ''bytes32'']
      ''getLockValue''
      [Param None ''uint256'' ''value'' ''uint256'']
      ''view'')"
  by (simp add: find_entry_def swapAbi_def)

lemma map_of_zip_absent: "k \<notin> set ks \<Longrightarrow> map_of (zip ks vs) k = None"
  by (metis set_zip_leftD map_of_eq_None_iff imageE surjective_pairing)

section \<open>Facts about the ledger\<close>

lemma create_rejected:
  "locks (lockIdOf g a (caller env) h t) = Some l \<Longrightarrow>
   create g env locks a r h t v = Inl (LockAlreadyExists (lockIdOf g a (caller env) h t))"
  by (simp add: create_def)

lemma create_accepted:
  "locks (lockIdOf g a (caller env) h t) = None \<Longrightarrow> pull env a (caller env) v \<Longrightarrow>
   create g env locks a r h t v =
     Inr (locks(lockIdOf g a (caller env) h t \<mapsto>
            \<lparr>l_assetContract = a, l_creator = caller env, l_recipient = r,
             l_hashedSecret = h, l_timeout = t, l_value = v\<rparr>),
          Pulled a (caller env) v)"
  by (simp add: create_def)

text \<open>What a completed resolution tells about the table it started from.\<close>

lemma unlock_Inr:
  "unlock g env locks a c s t = Inr (locks', tr) \<Longrightarrow>
   \<exists>l. locks (lockIdOf g a c (hash_secret g s) t) = Some l
      \<and> current_time env < t \<and> caller env = l_recipient l
      \<and> push env a (caller env) (l_value l)
      \<and> locks' = locks(lockIdOf g a c (hash_secret g s) t := None)
      \<and> tr = Pushed a (l_recipient l) (l_value l)"
  by (auto simp: unlock_def Let_def split: option.splits if_splits)

lemma decline_Inr:
  "decline g env locks a c h t = Inr (locks', tr) \<Longrightarrow>
   \<exists>l. locks (lockIdOf g a c h t) = Some l
      \<and> current_time env < t \<and> caller env = l_recipient l
      \<and> push env a c (l_value l)
      \<and> locks' = locks(lockIdOf g a c h t := None)
      \<and> tr = Pushed a c (l_value l)"
  by (auto simp: decline_def Let_def split: option.splits if_splits)

lemma retrieve_Inr:
  "retrieve g env locks a r h t = Inr (locks', tr) \<Longrightarrow>
   \<exists>l. locks (lockIdOf g a (caller env) h t) = Some l
      \<and> t \<le> current_time env
      \<and> push env a (caller env) (l_value l)
      \<and> locks' = locks(lockIdOf g a (caller env) h t := None)
      \<and> tr = Pushed a (caller env) (l_value l)"
  by (auto simp: retrieve_def Let_def split: option.splits if_splits)

text \<open>The recipient's unlock of an open lock, in time and with a payment that goes through.\<close>

lemma unlock_completes:
  "locks (lockIdOf g a c (hash_secret g s) t) = Some l \<Longrightarrow> current_time env < t \<Longrightarrow>
   caller env = l_recipient l \<Longrightarrow> push env a (caller env) (l_value l) \<Longrightarrow>
   unlock g env locks a c s t =
     Inr (locks(lockIdOf g a c (hash_secret g s) t := None), Pushed a (l_recipient l) (l_value l))"
  by (simp add: unlock_def Let_def)

lemma unlock_timing:
  assumes "locks (lockIdOf g a c (hash_secret g s) t) = Some l"
  shows "(t \<le> current_time env \<longrightarrow>
            unlock g env locks a c s t = Inl (LockTimedOut (lockIdOf g a c (hash_secret g s) t)))
       \<and> (\<forall>res. unlock g env locks a c s t = Inr res \<longrightarrow> current_time env < t)"
  using assms by (auto simp: unlock_def Let_def split: if_splits)

lemma decline_timing:
  assumes "locks (lockIdOf g a c h t) = Some l"
  shows "(t \<le> current_time env \<longrightarrow>
            decline g env locks a c h t = Inl (LockTimedOut (lockIdOf g a c h t)))
       \<and> (\<forall>res. decline g env locks a c h t = Inr res \<longrightarrow> current_time env < t)"
  using assms by (auto simp: decline_def Let_def split: if_splits)

lemma retrieve_timing:
  assumes "locks (lockIdOf g a (caller env) h t) = Some l"
  shows "(current_time env < t \<longrightarrow>
            retrieve g env locks a r h t = Inl (LockNotTimedOut (lockIdOf g a (caller env) h t)))
       \<and> (\<forall>res. retrieve g env locks a r h t = Inr res \<longrightarrow> t \<le> current_time env)"
  using assms by (auto simp: retrieve_def Let_def split: if_splits)

lemma invoke_rejected:
  "fst (invoke g env locks req) = Inl err \<Longrightarrow> snd (invoke g env locks req) = locks"
  by (auto simp: invoke_def split: sum.splits prod.splits)

text \<open>
  Every creation stores the lock under its own identity, and a resolution only removes
  a lock, so a table in which every lock sits under its own identity stays one.
\<close>

lemma perform_keeps_own_ids:
  assumes "\<forall>k l. locks k = Some l \<longrightarrow> k = own_id g l"
    and "perform g env locks req = Inr (locks', tr)"
  shows "\<forall>k l. locks' k = Some l \<longrightarrow> k = own_id g l"
proof (cases req)
  case (LockBuy a r h t v w p)
  with assms show ?thesis
    by (auto simp: lockBuy_def create_def Let_def own_id_def split: if_splits)
next
  case (LockSell a r h t v w m)
  with assms show ?thesis
    by (auto simp: lockSell_def create_def Let_def own_id_def split: if_splits)
next
  case (Unlock a c s t)
  with assms show ?thesis by (auto dest!: unlock_Inr split: if_splits)
next
  case (Retrieve a r h t)
  with assms show ?thesis by (auto dest!: retrieve_Inr split: if_splits)
next
  case (Decline a c h t)
  with assms show ?thesis by (auto dest!: decline_Inr split: if_splits)
qed

section \<open>Facts about the example data\<close>

lemma example_lock_fields:
  "l_assetContract example_lock = 10" "l_creator example_lock = 12"
  "l_recipient example_lock = 11" "l_hashedSecret example_lock = 43"
  "l_timeout example_lock = 100" "l_value example_lock = 1000"
  by (simp_all add: example_lock_def)

lemma example_own_id: "own_id example_engine example_lock = example_id"
  by (simp add: own_id_def example_id_def example_lock_fields)

lemma example_open: "open_lock example_engine example_ledger example_lock"
  by (simp add: open_lock_def example_own_id example_ledger_def)

lemma example_lookup: "example_ledger example_id = Some example_lock"
  by (simp add: example_ledger_def)

lemma example_secret: "hash_secret example_engine 42 = 43"
  by (simp add: example_engine_def)

lemma example_derived:
  "lockIdOf example_engine 10 12 43 100 = example_id"
  "calculateLockId (hash_id example_engine) 10 12 43 100 = example_id"
  by (simp_all add: example_id_def lockIdOf_def)

lemma at_fields:
  "caller (at party tm ok) = party" "current_time (at party tm ok) = tm"
  "pull (at party tm ok) a b v = ok" "push (at party tm ok) a b v = ok"
  by (simp_all add: at_def)

lemmas example_simps = example_lock_fields example_own_id example_open example_lookup
  example_secret example_derived at_fields

lemma example_packed:
  "be_bytes 20 (10 :: address) @ be_bytes 20 (12 :: address)
     @ be_bytes 32 (43 :: bytes32) @ be_bytes 32 (100 :: uint256) =
   [0, 0, 0, 0, 0, 0, 0, 0, 0, 0, 0, 0, 0, 0, 0, 0, 0, 0, 0, 10,
    0, 0, 0, 0, 0, 0, 0, 0, 0, 0, 0, 0, 0, 0, 0, 0, 0, 0, 0, 12,
    0, 0, 0, 0, 0, 0, 0, 0, 0, 0, 0, 0, 0, 0, 0, 0,
    0, 0, 0, 0, 0, 0, 0, 0, 0, 0, 0, 0, 0, 0, 0, 43,
    0, 0, 0, 0, 0, 0, 0, 0, 0, 0, 0, 0, 0, 0, 0, 0,
    0, 0, 0, 0, 0, 0, 0, 0, 0, 0, 0, 0, 0, 0, 0, 100]"
  by code_simp

section \<open>The claims\<close>

text \<open>
  Claim C1. The lock identity that \<open>calculateLockId\<close> computes is the hash of the
  tightly packed encoding of exactly \<open>(tokenAddress, creator, hashedSecret, timeout)\<close>:
  104 bytes that determine the tuple and are determined by it. Equal tuples give equal
  identities, and the identity \<open>lockSell\<close> computes for a new lock is the same
  whatever the recipient and the amount of the call are.
\<close>

theorem calculateLockId_pure:
  "calculateLockId H a c h t
     = H (be_bytes 20 a @ be_bytes 20 c @ be_bytes 32 h @ be_bytes 32 t)
 \<and> length (be_bytes 20 a @ be_bytes 20 c @ be_bytes 32 h @ be_bytes 32 t) = 104
 \<and> (solidityPacked [Address a, Address c, Bytes32 h, Uint256 t]
       = solidityPacked [Address a', Address c', Bytes32 h', Uint256 t']
     \<longleftrightarrow> a = a' \<and> c = c' \<and> h = h' \<and> t = t')
 \<and> ((a, c, h, t) = (a', c', h', t') \<longrightarrow>
       calculateLockId H a c h t = calculateLockId H a' c' h' t')
 \<and> lockSell_lockId H a c r h t v None = lockSell_lockId H a c r' h t v' None
 \<and> lockSell_lockId H a c r h t v None = Bytes32 (calculateLockId H a c h t)"
  using solidityPacked_tuple_inj [of a c h t a' c' h' t']
  by (simp add: calculateLockId_def solidityPackedKeccak256_def solidityPacked_tuple
      length_be_bytes lockSell_lockId_def)

theorem calculateLockId_pure_witness:
  "(10 :: address, 12 :: address, 43 :: bytes32, 100 :: uint256) = (10, 12, 43, 100)
 \<and> calculateLockId (hash_id example_engine) 10 12 43 100
     = hash_id example_engine
        [0, 0, 0, 0, 0, 0, 0, 0, 0, 0, 0, 0, 0, 0, 0, 0, 0, 0, 0, 10,
         0, 0, 0, 0, 0, 0, 0, 0, 0, 0, 0, 0, 0, 0, 0, 0, 0, 0, 0, 12,
         0, 0, 0, 0, 0, 0, 0, 0, 0, 0, 0, 0, 0, 0, 0, 0,
         0, 0, 0, 0, 0, 0, 0, 0, 0, 0, 0, 0, 0, 0, 0, 43,
         0, 0, 0, 0, 0, 0, 0, 0, 0, 0, 0, 0, 0, 0, 0, 0,
         0, 0, 0, 0, 0, 0, 0, 0, 0, 0, 0, 0, 0, 0, 0, 100]
 \<and> lockSell_lockId (hash_id example_engine) 10 12 11 43 100 1000 None
     = lockSell_lockId (hash_id example_engine) 10 12 13 43 100 2000 None"
  using calculateLockId_pure [where H = "hash_id example_engine" and a = 10 and c = 12
      and h = 43 and t = 100 and a' = 10 and c' = 12 and h' = 43 and t' = 100
      and r = 11 and v = 1000 and r' = 13 and v' = 2000]
  by (simp add: example_packed)

text \<open>
  Claim C2, as the sources have it. The claim says that every record of the five
  operations carries \<open>lockId\<close>, the sell-creation record in particular. The
  \<open>LockSell\<close> event of the interface description has no such parameter.
\<close>

theorem LockSell_record_has_no_lockId: "\<not> has_field ''LockSell'' ''lockId''"
  by (simp add: has_field_def find_LockSell field_names_def)

text \<open>
  Claim C2, amended. The events are the five records \<open>Decline\<close>, \<open>LockBuy\<close>,
  \<open>LockSell\<close>, \<open>Retrieve\<close> and \<open>Unlock\<close>. Each carries \<open>token\<close>,
  \<open>creator\<close> and \<open>recipient\<close>; each but \<open>LockSell\<close> carries \<open>lockId\<close>. The
  \<open>LockSell\<close> record carries \<open>hashedSecret\<close>, \<open>timeout\<close>, \<open>value\<close>,
  \<open>buyAssetId\<close> and \<open>buyLockId\<close> besides, and for a log decoded by that
  declaration the client derives the identity itself, as
  \<open>calculateLockId(tokenAddress, account, hashedSecret, timeoutInt)\<close>.
\<close>

theorem event_records_fields:
  assumes "e \<in> set abi_events"
  shows "e_name e \<in> {''Decline'', ''LockBuy'', ''LockSell'', ''Retrieve'', ''Unlock''}
       \<and> {''token'', ''creator'', ''recipient''} \<subseteq> set (field_names e)
       \<and> (''lockId'' \<in> set (field_names e) \<longleftrightarrow> e_name e \<noteq> ''LockSell'')
       \<and> (e_name e = ''LockSell'' \<longrightarrow>
            field_names e = [''token'', ''creator'', ''recipient'', ''hashedSecret'', ''timeout'',
                             ''value'', ''buyAssetId'', ''buyLockId'']
          \<and> lockSell_lockId H tokenAddress account recipient hashedSecret timeoutInt
               valueWei (Some (parseLog e vals))
             = Bytes32 (calculateLockId H tokenAddress account hashedSecret timeoutInt))"
  using assms
  by (auto simp: abi_events_def swapAbi_def field_names_def lockSell_lockId_def parseLog_def
      map_of_zip_absent)

theorem event_records_fields_witness:
  "swapAbi ! 8 \<in> set abi_events
 \<and> e_name (swapAbi ! 8) = ''LockSell''
 \<and> ''lockId'' \<notin> set (field_names (swapAbi ! 8))
 \<and> field_names (swapAbi ! 8) =
      [''token'', ''creator'', ''recipient'', ''hashedSecret'', ''timeout'', ''value'',
       ''buyAssetId'', ''buyLockId'']
 \<and> lockSell_lockId (hash_id example_engine) 10 12 11 43 100 1000
      (Some (parseLog (swapAbi ! 8)
         [Address 10, Address 12, Address 11, Bytes32 43, Uint256 100, Uint256 1000,
          Bytes32 0, Bytes32 0]))
     = Bytes32 (calculateLockId (hash_id example_engine) 10 12 43 100)"
proof -
  have mem: "swapAbi ! 8 \<in> set abi_events"
    by (simp add: abi_events_def swapAbi_def)
  have name: "e_name (swapAbi ! 8) = ''LockSell''"
    by (simp add: swapAbi_def)
  show ?thesis
    using mem name
      event_records_fields [OF mem, where H = "hash_id example_engine"
        and tokenAddress = 10 and account = 12 and recipient = 11 and hashedSecret = 43
        and timeoutInt = 100 and valueWei = 1000
        and vals = "[Address 10, Address 12, Address 11, Bytes32 43, Uint256 100, Uint256 1000,
                     Bytes32 0, Bytes32 0]"]
    by simp
qed

text \<open>
  Claim C3. For every open lock, stored under the identity of its own fields: an unlock
  with a secret that hashes to the lock's commitment, and a decline, complete only
  when the current time is strictly before the lock's timeout, and are rejected with
  \<open>LockTimedOut\<close> at or after it; a retrieve by the creator completes only at or
  after the timeout and is rejected with \<open>LockNotTimedOut\<close> before it.
\<close>

theorem resolution_timing:
  assumes "open_lock g locks l"
  shows
  "(hash_secret g s = l_hashedSecret l \<longrightarrow>
      (l_timeout l \<le> current_time env \<longrightarrow>
         unlock g env locks (l_assetContract l) (l_creator l) s (l_timeout l)
           = Inl (LockTimedOut (own_id g l)))
    \<and> (\<forall>res. unlock g env locks (l_assetContract l) (l_creator l) s (l_timeout l) = Inr res
           \<longrightarrow> current_time env < l_timeout l))
 \<and> (l_timeout l \<le> current_time env \<longrightarrow>
      decline g env locks (l_assetContract l) (l_creator l) (l_hashedSecret l) (l_timeout l)
        = Inl (LockTimedOut (own_id g l)))
 \<and> (\<forall>res. decline g env locks (l_assetContract l) (l_creator l) (l_hashedSecret l) (l_timeout l)
             = Inr res \<longrightarrow> current_time env < l_timeout l)
 \<and> (caller env = l_creator l \<longrightarrow>
      (current_time env < l_timeout l \<longrightarrow>
         retrieve g env locks (l_assetContract l) r (l_hashedSecret l) (l_timeout l)
           = Inl (LockNotTimedOut (own_id g l)))
    \<and> (\<forall>res. retrieve g env locks (l_assetContract l) r (l_hashedSecret l) (l_timeout l) = Inr res
           \<longrightarrow> l_timeout l \<le> current_time env))"
proof -
  have d: "locks (lockIdOf g (l_assetContract l) (l_creator l) (l_hashedSecret l) (l_timeout l))
             = Some l"
    using assms by (simp add: open_lock_def own_id_def)
  show ?thesis
    using unlock_timing [where locks = locks and g = g and a = "l_assetContract l"
          and c = "l_creator l" and s = s and t = "l_timeout l" and l = l and env = env]
      decline_timing [where locks = locks and l = l and env = env, OF d]
      retrieve_timing [where locks = locks and g = g and a = "l_assetContract l" and env = env
          and h = "l_hashedSecret l" and t = "l_timeout l" and l = l and r = r]
      d
    by (simp add: own_id_def)
qed

theorem resolution_timing_witness:
  "open_lock example_engine example_ledger example_lock
 \<and> hash_secret example_engine 42 = l_hashedSecret example_lock
 \<and> l_timeout example_lock \<le> current_time (at 11 101 True)
 \<and> unlock example_engine (at 11 101 True) example_ledger 10 12 42 100
     = Inl (LockTimedOut example_id)
 \<and> decline example_engine (at 11 101 True) example_ledger 10 12 43 100
     = Inl (LockTimedOut example_id)
 \<and> caller (at 12 99 True) = l_creator example_lock
 \<and> current_time (at 12 99 True) < l_timeout example_lock
 \<and> retrieve example_engine (at 12 99 True) example_ledger 10 11 43 100
     = Inl (LockNotTimedOut example_id)"
  using resolution_timing [OF example_open, of 42 "at 11 101 True" 11]
    resolution_timing [OF example_open, of 42 "at 12 99 True" 11]
  by (simp add: example_simps)

text \<open>
  Claim C4. Every operation is atomic. An invocation that is rejected, for whatever
  reason, leaves the table exactly as it was. A creation whose custody pull fails is
  rejected with \<open>TransferInFailed\<close> and records no lock. A resolution whose custody
  push fails is rejected with \<open>TransferOutFailed\<close> and leaves the lock open: the
  same resolution, invoked again when the push goes through, completes.
\<close>

theorem invocation_atomic:
  "(fst (invoke g env locks req) = Inl err \<longrightarrow> snd (invoke g env locks req) = locks)
 \<and> (locks (lockIdOf g a (caller env) h t) = None \<and> \<not> pull env a (caller env) v \<longrightarrow>
      invoke g env locks (LockBuy a r h t v w p)
        = (Inl (TransferInFailed a (caller env) v), locks)
    \<and> invoke g env locks (LockSell a r h t v w m)
        = (Inl (TransferInFailed a (caller env) v), locks))
 \<and> (locks (lockIdOf g a c (hash_secret g s) t) = Some l \<and> current_time env < t
      \<and> caller env = l_recipient l \<and> \<not> push env a (caller env) (l_value l) \<longrightarrow>
      invoke g env locks (Unlock a c s t)
        = (Inl (TransferOutFailed a (caller env) (l_value l)), locks)
    \<and> (caller env' = l_recipient l \<and> current_time env' < t
        \<and> push env' a (caller env') (l_value l) \<longrightarrow>
         invoke g env' (snd (invoke g env locks (Unlock a c s t))) (Unlock a c s t)
           = (Inr (Pushed a (caller env') (l_value l)),
              locks(lockIdOf g a c (hash_secret g s) t := None))))
 \<and> (locks (lockIdOf g a c h t) = Some l \<and> current_time env < t
      \<and> caller env = l_recipient l \<and> \<not> push env a c (l_value l) \<longrightarrow>
      invoke g env locks (Decline a c h t) = (Inl (TransferOutFailed a c (l_value l)), locks)
    \<and> (caller env' = l_recipient l \<and> current_time env' < t \<and> push env' a c (l_value l) \<longrightarrow>
         invoke g env' (snd (invoke g env locks (Decline a c h t))) (Decline a c h t)
           = (Inr (Pushed a c (l_value l)), locks(lockIdOf g a c h t := None))))
 \<and> (locks (lockIdOf g a (caller env) h t) = Some l \<and> t \<le> current_time env
      \<and> \<not> push env a (caller env) (l_value l) \<longrightarrow>
      invoke g env locks (Retrieve a r h t)
        = (Inl (TransferOutFailed a (caller env) (l_value l)), locks)
    \<and> (caller env' = caller env \<and> t \<le> current_time env'
        \<and> push env' a (caller env') (l_value l) \<longrightarrow>
         invoke g env' (snd (invoke g env locks (Retrieve a r h t))) (Retrieve a r h t)
           = (Inr (Pushed a (caller env') (l_value l)),
              locks(lockIdOf g a (caller env) h t := None))))"
proof (intro conjI impI)
  show "snd (invoke g env locks req) = locks" if "fst (invoke g env locks req) = Inl err"
    using that by (rule invoke_rejected)
qed (auto simp: invoke_def lockBuy_def lockSell_def create_def unlock_def decline_def
       retrieve_def Let_def)

theorem invocation_atomic_witness:
  "fst (invoke example_engine (at 11 99 False) example_ledger (Unlock 10 12 42 100))
     = Inl (TransferOutFailed 10 11 1000)
 \<and> snd (invoke example_engine (at 11 99 False) example_ledger (Unlock 10 12 42 100))
     = example_ledger
 \<and> invoke example_engine (at 11 99 True)
      (snd (invoke example_engine (at 11 99 False) example_ledger (Unlock 10 12 42 100)))
      (Unlock 10 12 42 100)
     = (Inr (Pushed 10 11 1000), example_ledger(example_id := None))
 \<and> invoke example_engine (at 11 99 False) example_ledger (Decline 10 12 43 100)
     = (Inl (TransferOutFailed 10 12 1000), example_ledger)
 \<and> invoke example_engine (at 12 100 False) example_ledger (Retrieve 10 11 43 100)
     = (Inl (TransferOutFailed 10 12 1000), example_ledger)
 \<and> invoke example_engine (at 12 5 False) Map.empty (LockBuy 10 11 43 100 1000 0 0)
     = (Inl (TransferInFailed 10 12 1000), Map.empty)
 \<and> invoke example_engine (at 12 5 False) Map.empty (LockSell 10 11 43 100 1000 0 0)
     = (Inl (TransferInFailed 10 12 1000), Map.empty)"
  using
    invocation_atomic [where g = example_engine and env = "at 11 99 False"
      and locks = example_ledger and req = "Unlock 10 12 42 100"
      and err = "TransferOutFailed 10 11 1000" and a = 10 and c = 12 and s = 42 and h = 43
      and t = 100 and l = example_lock and env' = "at 11 99 True"
      and r = 11 and v = 1000 and w = 0 and p = 0 and m = 0]
    invocation_atomic [where g = example_engine and env = "at 12 100 False"
      and locks = example_ledger and req = "Retrieve 10 11 43 100"
      and err = "TransferOutFailed 10 12 1000" and a = 10 and c = 12 and s = 42 and h = 43
      and t = 100 and l = example_lock and env' = "at 12 100 True"
      and r = 11 and v = 1000 and w = 0 and p = 0 and m = 0]
    invocation_atomic [where g = example_engine and env = "at 12 5 False"
      and locks = Map.empty and req = "LockBuy 10 11 43 100 1000 0 0"
      and err = "TransferInFailed 10 12 1000" and a = 10 and c = 12 and s = 42 and h = 43
      and t = 100 and l = example_lock and env' = "at 12 5 True"
      and r = 11 and v = 1000 and w = 0 and p = 0 and m = 0]
  by (auto simp: example_simps)

text \<open>
  Claim C5. While a lock derived from \<open>(assetContract, creator, hashedSecret, timeout)\<close>
  is open, a creation by that creator with the same tuple is rejected with
  \<open>LockAlreadyExists\<close>, through \<open>lockBuy\<close> as through \<open>lockSell\<close>, whatever
  recipient and value it names. Once the lock has been resolved by an unlock, a decline or
  a retrieve, a creation with the same tuple is accepted again (its custody pull going
  through).
\<close>

theorem duplicate_creation_rejected:
  assumes "locks (lockIdOf g a c h t) = Some l" and "caller env = c"
  shows
  "lockBuy g env locks a r h t v w p = Inl (LockAlreadyExists (lockIdOf g a c h t))
 \<and> lockSell g env locks a r h t v w m = Inl (LockAlreadyExists (lockIdOf g a c h t))
 \<and> ((hash_secret g s = h \<and> unlock g env1 locks a c s t = Inr (locks', tr)
      \<or> decline g env1 locks a c h t = Inr (locks', tr)
      \<or> caller env1 = c \<and> retrieve g env1 locks a r1 h t = Inr (locks', tr))
     \<and> pull env a c v \<longrightarrow>
       lockBuy g env locks' a r h t v w p =
         Inr (locks'(lockIdOf g a c h t \<mapsto>
                \<lparr>l_assetContract = a, l_creator = c, l_recipient = r,
                 l_hashedSecret = h, l_timeout = t, l_value = v\<rparr>),
              Pulled a c v)
     \<and> lockSell g env locks' a r h t v w m =
         Inr (locks'(lockIdOf g a c h t \<mapsto>
                \<lparr>l_assetContract = a, l_creator = c, l_recipient = r,
                 l_hashedSecret = h, l_timeout = t, l_value = v\<rparr>),
              Pulled a c v))"
proof -
  have closed: "locks' (lockIdOf g a c h t) = None"
    if "hash_secret g s = h \<and> unlock g env1 locks a c s t = Inr (locks', tr)
      \<or> decline g env1 locks a c h t = Inr (locks', tr)
      \<or> caller env1 = c \<and> retrieve g env1 locks a r1 h t = Inr (locks', tr)"
    using that by (auto dest!: unlock_Inr decline_Inr retrieve_Inr)
  show ?thesis
    using assms create_rejected [of locks g a env h t l]
      create_accepted [of locks' g a env h t v r] closed
    by (auto simp: lockBuy_def lockSell_def)
qed

theorem duplicate_creation_rejected_witness:
  "example_ledger (lockIdOf example_engine 10 12 43 100) = Some example_lock
 \<and> caller (at 12 50 True) = 12
 \<and> lockBuy example_engine (at 12 50 True) example_ledger 10 13 43 100 7 0 0
     = Inl (LockAlreadyExists example_id)
 \<and> lockSell example_engine (at 12 50 True) example_ledger 10 13 43 100 7 0 0
     = Inl (LockAlreadyExists example_id)
 \<and> hash_secret example_engine 42 = 43
 \<and> unlock example_engine (at 11 99 True) example_ledger 10 12 42 100
     = Inr (example_ledger(example_id := None), Pushed 10 11 1000)
 \<and> pull (at 12 50 True) 10 12 7
 \<and> lockBuy example_engine (at 12 50 True) (example_ledger(example_id := None)) 10 13 43 100 7 0 0
     = Inr ((example_ledger(example_id := None))(example_id \<mapsto>
              \<lparr>l_assetContract = 10, l_creator = 12, l_recipient = 13,
               l_hashedSecret = 43, l_timeout = 100, l_value = 7\<rparr>),
            Pulled 10 12 7)"
proof -
  have u: "unlock example_engine (at 11 99 True) example_ledger 10 12 42 100
             = Inr (example_ledger(example_id := None), Pushed 10 11 1000)"
    using unlock_completes [where g = example_engine and locks = example_ledger and a = 10
        and c = 12 and s = 42 and t = 100 and l = example_lock and env = "at 11 99 True"]
    by (simp add: example_simps)
  show ?thesis
    using u
      duplicate_creation_rejected [where g = example_engine and locks = example_ledger
        and a = 10 and c = 12 and h = 43 and t = 100 and l = example_lock
        and env = "at 12 50 True" and r = 13 and v = 7 and w = 0 and p = 0 and m = 0
        and s = 42 and ?env1.0 = "at 11 99 True"
        and locks' = "example_ledger(example_id := None)" and tr = "Pushed 10 11 1000"]
    by (simp add: example_simps)
qed

text \<open>
  Claim C6. The unlock operation takes exactly \<open>(token, creator, secret, timeout)\<close>, in
  the interface description and in the call the client sends; the recipient is not among
  them. The contract hashes the secret, derives the identity from
  \<open>(assetContract, creator, hashedSecret, timeout)\<close>, and completes only when the
  caller is the recipient stored in the lock, who is then paid the lock's value and the
  lock is closed. For the stored recipient, in time and with a payment that goes through,
  it does complete.
\<close>

theorem unlock_pays_stored_recipient:
  "map_option signature (find_entry is_function ''unlock'') =
     Some [(''token'', ''address''), (''creator'', ''address''), (''secret'', ''bytes32''),
           (''timeout'', ''uint256'')]
 \<and> unlock_sends ops tokenAddress creator secret timeout =
     SwapCall ''unlock'' [Str tokenAddress, Str creator, Str secret, Num (floorNumber ops timeout)]
 \<and> (unlock g env locks a c s t = Inr (locks', tr) \<longrightarrow>
      (\<exists>l. locks (calculateLockId (hash_id g) a c (hash_secret g s) t) = Some l
          \<and> caller env = l_recipient l
          \<and> tr = Pushed a (l_recipient l) (l_value l)
          \<and> locks' = locks(calculateLockId (hash_id g) a c (hash_secret g s) t := None)))
 \<and> (locks (calculateLockId (hash_id g) a c (hash_secret g s) t) = Some l
      \<and> current_time env < t \<and> caller env = l_recipient l
      \<and> push env a (caller env) (l_value l) \<longrightarrow>
      unlock g env locks a c s t =
        Inr (locks(calculateLockId (hash_id g) a c (hash_secret g s) t := None),
             Pushed a (l_recipient l) (l_value l)))"
proof (intro conjI impI)
  assume "unlock g env locks a c s t = Inr (locks', tr)"
  from unlock_Inr [OF this]
  show "\<exists>l. locks (calculateLockId (hash_id g) a c (hash_secret g s) t) = Some l
          \<and> caller env = l_recipient l
          \<and> tr = Pushed a (l_recipient l) (l_value l)
          \<and> locks' = locks(calculateLockId (hash_id g) a c (hash_secret g s) t := None)"
    by (auto simp: lockIdOf_def)
qed (auto simp: find_unlock signature_def unlock_sends_def unlock_def lockIdOf_def Let_def)

theorem unlock_pays_stored_recipient_witness:
  "example_ledger (calculateLockId (hash_id example_engine) 10 12 (hash_secret example_engine 42) 100)
     = Some example_lock
 \<and> current_time (at 11 99 True) < 100
 \<and> caller (at 11 99 True) = l_recipient example_lock
 \<and> push (at 11 99 True) 10 (caller (at 11 99 True)) (l_value example_lock)
 \<and> unlock example_engine (at 11 99 True) example_ledger 10 12 42 100
     = Inr (example_ledger(example_id := None), Pushed 10 11 1000)
 \<and> unlock_sends integer_ops ''0xA'' ''0xC'' ''0x2A'' 100
     = SwapCall ''unlock'' [Str ''0xA'', Str ''0xC'', Str ''0x2A'', Num 100]"
  using unlock_pays_stored_recipient [where g = example_engine and env = "at 11 99 True"
      and locks = example_ledger and a = 10 and c = 12 and s = 42 and t = 100
      and l = example_lock and ops = integer_ops and tokenAddress = "''0xA''"
      and creator = "''0xC''" and secret = "''0x2A''" and timeout = 100
      and locks' = "example_ledger(example_id := None)" and tr = "Pushed 10 11 1000"]
  by (simp add: example_simps integer_ops_def)

text \<open>
  Claim C7. The interface description declares exactly six errors:
  \<open>LockAlreadyExists\<close>, \<open>LockNotFound\<close>, \<open>LockNotTimedOut\<close> and
  \<open>LockTimedOut\<close>, each carrying the \<open>lockId\<close>, and \<open>TransferInFailed\<close> and
  \<open>TransferOutFailed\<close>, each carrying the asset, the counterparty account and the
  amount. Every rejection of the ledger is one of them, with those arguments.
\<close>

theorem failure_modes_exactly_six:
  "map (\<lambda>e. (e_name e, signature e)) abi_errors =
     [(''LockAlreadyExists'', [(''lockId'', ''bytes32'')]),
      (''LockNotFound'', [(''lockId'', ''bytes32'')]),
      (''LockNotTimedOut'', [(''lockId'', ''bytes32'')]),
      (''LockTimedOut'', [(''lockId'', ''bytes32'')]),
      (''TransferInFailed'',
         [(''token'', ''address''), (''from'', ''address''), (''value'', ''uint256'')]),
      (''TransferOutFailed'',
         [(''token'', ''address''), (''to'', ''address''), (''value'', ''uint256'')])]
 \<and> declared err \<in> set (map (\<lambda>e. (e_name e, signature e)) abi_errors)"
  using abi_error_list declared_in_abi by blast

theorem failure_modes_exactly_six_witness:
  "declared (TransferOutFailed 10 11 1000)
     = (''TransferOutFailed'',
        [(''token'', ''address''), (''to'', ''address''), (''value'', ''uint256'')])
 \<and> declared (TransferOutFailed 10 11 1000)
     \<in> set (map (\<lambda>e. (e_name e, signature e)) abi_errors)
 \<and> declared (LockNotFound example_id) = (''LockNotFound'', [(''lockId'', ''bytes32'')])
 \<and> declared (LockNotFound example_id)
     \<in> set (map (\<lambda>e. (e_name e, signature e)) abi_errors)"
  using failure_modes_exactly_six [of "TransferOutFailed 10 11 1000"]
    failure_modes_exactly_six [of "LockNotFound example_id"]
  by (simp add: declared_def)

text \<open>
  Claim C8. \<open>getLockValue\<close> is declared \<open>view\<close>, takes a \<open>lockId\<close> and gives a
  \<open>value\<close>. For an open lock it gives the custodied value; for an identity with no
  lock, and for one whose lock an unlock, a decline or a retrieve has resolved, it gives
  the not-found condition and no value.
\<close>

theorem getLockValue_open_or_not_found:
  "map_option
     (\<lambda>e. (signature e, map (\<lambda>p. (p_name p, p_type p)) (e_outputs e), e_stateMutability e))
     (find_entry is_function ''getLockValue'')
     = Some ([(''lockId'', ''bytes32'')], [(''value'', ''uint256'')], ''view'')
 \<and> (locks lockId = Some l \<longrightarrow> getLockValue locks lockId = Inr (l_value l))
 \<and> (locks lockId = None \<longrightarrow> getLockValue locks lockId = Inl (LockNotFound lockId))
 \<and> (unlock g env locks a c s t = Inr (locks', tr) \<longrightarrow>
      getLockValue locks' (lockIdOf g a c (hash_secret g s) t)
        = Inl (LockNotFound (lockIdOf g a c (hash_secret g s) t)))
 \<and> (decline g env locks a c h t = Inr (locks', tr) \<longrightarrow>
      getLockValue locks' (lockIdOf g a c h t) = Inl (LockNotFound (lockIdOf g a c h t)))
 \<and> (retrieve g env locks a r h t = Inr (locks', tr) \<longrightarrow>
      getLockValue locks' (lockIdOf g a (caller env) h t)
        = Inl (LockNotFound (lockIdOf g a (caller env) h t)))"
  by (auto simp: find_getLockValue signature_def getLockValue_def
      dest!: unlock_Inr decline_Inr retrieve_Inr)

theorem getLockValue_open_or_not_found_witness:
  "example_ledger example_id = Some example_lock
 \<and> getLockValue example_ledger example_id = Inr 1000
 \<and> Map.empty example_id = (None :: lock option)
 \<and> getLockValue Map.empty example_id = Inl (LockNotFound example_id)
 \<and> unlock example_engine (at 11 99 True) example_ledger 10 12 42 100
     = Inr (example_ledger(example_id := None), Pushed 10 11 1000)
 \<and> getLockValue (example_ledger(example_id := None)) example_id
     = Inl (LockNotFound example_id)"
proof -
  have u: "unlock example_engine (at 11 99 True) example_ledger 10 12 42 100
             = Inr (example_ledger(example_id := None), Pushed 10 11 1000)"
    using unlock_completes [where g = example_engine and locks = example_ledger and a = 10
        and c = 12 and s = 42 and t = 100 and l = example_lock and env = "at 11 99 True"]
    by (simp add: example_simps)
  show ?thesis
    using u
      getLockValue_open_or_not_found [where locks = example_ledger and lockId = example_id
        and l = example_lock and g = example_engine and env = "at 11 99 True" and a = 10
        and c = 12 and s = 42 and t = 100
        and locks' = "example_ledger(example_id := None)" and tr = "Pushed 10 11 1000"]
      getLockValue_open_or_not_found [where locks = Map.empty and lockId = example_id]
    by (simp add: example_simps)
qed

text \<open>
  Claim C9. In the client's \<open>lockSell\<close> the flag \<open>useRawValue\<close> changes nothing:
  either branch submits \<open>BigInt(String(value*1000000))\<close>, and the calls sent are the
  same for both values of the flag. In \<open>lockBuy\<close> the flag matters: set, the amount
  is \<open>BigInt(String(value))\<close> with no scaling; unset, the amount is scaled by
  \<open>1000000\<close>.
\<close>

theorem lockSell_useRawValue_ignored:
  "lockSell_valueWei ops True v = lockSell_valueWei ops False v
 \<and> lockSell_valueWei ops useRawValue v =
     (case toBigInt ops (times1000000 ops v) of
        None \<Rightarrow> Inl SyntaxError | Some valueWei \<Rightarrow> Inr valueWei)
 \<and> lockSell_sends ops swapAddress tokenAddress recipient hashedSecret timeout v buyAssetId
       buyLockId True currentAllowance
   = lockSell_sends ops swapAddress tokenAddress recipient hashedSecret timeout v buyAssetId
       buyLockId False currentAllowance
 \<and> lockBuy_valueWei ops True v =
     (case toBigInt ops v of
        None \<Rightarrow> Inl (InvalidValueFormat v) | Some valueWei \<Rightarrow> Inr valueWei)
 \<and> lockBuy_valueWei ops False v =
     (case toBigInt ops (times1000000 ops v) of
        None \<Rightarrow> Inl (InvalidValueFormat (times1000000 ops v)) | Some valueWei \<Rightarrow> Inr valueWei)
 \<and> lockSell_valueWei integer_ops True 5 = Inr 5000000
 \<and> lockSell_valueWei integer_ops False 5 = Inr 5000000
 \<and> lockBuy_valueWei integer_ops True 5 = Inr 5
 \<and> lockBuy_valueWei integer_ops False 5 = Inr 5000000"
  by (simp add: lockSell_valueWei_def lockSell_sends_def lockBuy_valueWei_def integer_ops_def
      Let_def)

theorem lockSell_useRawValue_ignored_witness:
  "lockSell_valueWei integer_ops True 3 = Inr 3000000
 \<and> lockSell_valueWei integer_ops False 3 = Inr 3000000
 \<and> lockSell_sends integer_ops ''0x5'' ''0xA'' ''0xB'' ''0x2B'' 100 3 None None True 0
     = lockSell_sends integer_ops ''0x5'' ''0xA'' ''0xB'' ''0x2B'' 100 3 None None False 0
 \<and> lockBuy_valueWei integer_ops True 3 = Inr 3
 \<and> lockBuy_valueWei integer_ops False 3 = Inr 3000000"
  using lockSell_useRawValue_ignored [where ops = integer_ops and v = 3 and useRawValue = False
      and swapAddress = "''0x5''" and tokenAddress = "''0xA''" and recipient = "''0xB''"
      and hashedSecret = "''0x2B''" and timeout = 100 and buyAssetId = None and buyLockId = None
      and currentAllowance = 0]
  by (simp add: integer_ops_def)

text \<open>
  Claim C10. The client's \<open>getLockValue\<close> always returns a string and never throws.
  It returns \<open>"0"\<close> when no swap contract is connected and when the contract call
  is rejected, a lock that is not found included; otherwise it returns the on-chain
  value as \<open>formatEther\<close> renders it.
\<close>

theorem client_getLockValue_total:
  "(\<exists>str. client_getLockValue formatEther swapContract lockId = Inr str)
 \<and> client_getLockValue formatEther None lockId = Inr ''0''
 \<and> (contract lockId = Inl err \<longrightarrow>
      client_getLockValue formatEther (Some contract) lockId = Inr ''0'')
 \<and> (contract lockId = Inr v \<longrightarrow>
      client_getLockValue formatEther (Some contract) lockId = Inr (formatEther v))
 \<and> client_getLockValue formatEther (Some (getLockValue locks)) lockId =
      (case locks lockId of None \<Rightarrow> Inr ''0'' | Some l \<Rightarrow> Inr (formatEther (l_value l)))"
  by (auto simp: client_getLockValue_def try_catch_def getLockValue_def
      split: option.splits sum.splits)

theorem client_getLockValue_total_witness:
  "getLockValue Map.empty example_id = Inl (LockNotFound example_id)
 \<and> client_getLockValue example_formatEther (Some (getLockValue Map.empty)) example_id
     = Inr ''0''
 \<and> getLockValue example_ledger example_id = Inr 1000
 \<and> client_getLockValue example_formatEther (Some (getLockValue example_ledger)) example_id
     = Inr ''0.000000000000001''
 \<and> client_getLockValue example_formatEther (None :: (bytes32 \<Rightarrow> swap_error + uint256) option)
      example_id = Inr ''0''"
  using
    client_getLockValue_total [where formatEther = example_formatEther
      and contract = "getLockValue Map.empty" and lockId = example_id
      and err = "LockNotFound example_id" and locks = Map.empty and v = 0
      and swapContract = "None :: (bytes32 \<Rightarrow> swap_error + uint256) option"]
    client_getLockValue_total [where formatEther = example_formatEther
      and contract = "getLockValue example_ledger" and lockId = example_id
      and err = "LockNotFound example_id" and locks = example_ledger and v = 1000
      and swapContract = "None :: (bytes32 \<Rightarrow> swap_error + uint256) option"]
  by (auto simp: getLockValue_def example_simps example_formatEther_def)

end
